theory Spec2Isabelle
  imports Complex_Main
begin

section \<open>JavaScript numbers and \<open>parseFloat\<close>\<close>

text \<open>
  The prediction page (\<open>pages/Prediction.js\<close>) keeps every form field as a string and
  compares \<open>parseFloat(value)\<close> with numeric constants. A JavaScript number is a binary64
  floating-point number: it is modelled as \<open>NaN\<close>, one of the two infinities, or \<open>Num q\<close>
  with \<open>q\<close> the exact rational value of a finite binary64 number. The sign of zero is
  not kept; no comparison made by the page tells \<open>-0\<close> from \<open>0\<close>.
\<close>

datatype jsnum = NaN | Num rat | PosInf | NegInf

text \<open>
  \<open>round64\<close> rounds a rational to the nearest binary64 number, ties to the even
  significand: 53 bits of significand for exponents from \<open>-1022\<close> on, the fixed quantum
  \<open>2^-1074\<close> below (subnormal numbers), an infinity from \<open>2^1024\<close> on.
\<close>

definition pow2 :: "int \<Rightarrow> rat" where
  "pow2 e = (if 0 \<le> e then 2 ^ nat e else 1 / 2 ^ nat (- e))"

function ilog2 :: "nat \<Rightarrow> nat" where
  "ilog2 n = (if n < 2 then 0 else Suc (ilog2 (n div 2)))"
  by pat_completeness auto
termination
  by (relation "measure id") auto

declare ilog2.simps [simp del]

text \<open>The exponent \<open>e\<close> of a positive rational: \<open>2^e \<le> a < 2^(e+1)\<close>.\<close>

definition exponentOf :: "rat \<Rightarrow> int" where
  "exponentOf a =
     (if 1 \<le> a then int (ilog2 (nat \<lfloor>a\<rfloor>))
      else - (int (ilog2 (nat \<lceil>1 / a\<rceil> - 1)) + 1))"

definition roundHalfEven :: "rat \<Rightarrow> int" where
  "roundHalfEven x =
     (let f = \<lfloor>x\<rfloor>; r = x - of_int f
      in if r < 1 / 2 then f else if 1 / 2 < r then f + 1 else if even f then f else f + 1)"

definition round64 :: "rat \<Rightarrow> jsnum" where
  "round64 q =
     (if q = 0 then Num 0
      else
        let a = \<bar>q\<bar>;
            e = exponentOf a;
            quantum = pow2 (max e (- 1022) - 52);
            n = roundHalfEven (a / quantum)
        in if 1024 \<le> e \<or> (e = 1023 \<and> n = 2 ^ 53) then (if q < 0 then NegInf else PosInf)
           else Num (if q < 0 then - (of_int n * quantum) else of_int n * quantum))"

text \<open>Addition and multiplication of numbers: the exact result, rounded.\<close>

fun js_add :: "jsnum \<Rightarrow> jsnum \<Rightarrow> jsnum" where
  "js_add NaN _ = NaN"
| "js_add _ NaN = NaN"
| "js_add (Num a) (Num b) = round64 (a + b)"
| "js_add (Num a) PosInf = PosInf"
| "js_add (Num a) NegInf = NegInf"
| "js_add PosInf NegInf = NaN"
| "js_add PosInf _ = PosInf"
| "js_add NegInf PosInf = NaN"
| "js_add NegInf _ = NegInf"

fun js_mul :: "jsnum \<Rightarrow> jsnum \<Rightarrow> jsnum" where
  "js_mul NaN _ = NaN"
| "js_mul _ NaN = NaN"
| "js_mul (Num a) (Num b) = round64 (a * b)"
| "js_mul (Num a) PosInf = (if a = 0 then NaN else if 0 < a then PosInf else NegInf)"
| "js_mul (Num a) NegInf = (if a = 0 then NaN else if 0 < a then NegInf else PosInf)"
| "js_mul PosInf (Num b) = (if b = 0 then NaN else if 0 < b then PosInf else NegInf)"
| "js_mul NegInf (Num b) = (if b = 0 then NaN else if 0 < b then NegInf else PosInf)"
| "js_mul PosInf PosInf = PosInf"
| "js_mul PosInf NegInf = NegInf"
| "js_mul NegInf PosInf = NegInf"
| "js_mul NegInf NegInf = PosInf"

text \<open>The relational operators \<open><\<close>, \<open>></\<close>, \<open><=\<close>, \<open>>=\<close>: every comparison with
  \<open>NaN\<close> is false.\<close>

fun js_lt :: "jsnum \<Rightarrow> jsnum \<Rightarrow> bool" where
  "js_lt NaN _ = False"
| "js_lt _ NaN = False"
| "js_lt (Num a) (Num b) = (a < b)"
| "js_lt (Num a) PosInf = True"
| "js_lt (Num a) NegInf = False"
| "js_lt PosInf _ = False"
| "js_lt NegInf (Num b) = True"
| "js_lt NegInf PosInf = True"
| "js_lt NegInf NegInf = False"

definition js_gt :: "jsnum \<Rightarrow> jsnum \<Rightarrow> bool" where
  "js_gt a b = js_lt b a"

definition js_le :: "jsnum \<Rightarrow> jsnum \<Rightarrow> bool" where
  "js_le a b = (a \<noteq> NaN \<and> b \<noteq> NaN \<and> \<not> js_lt b a)"

definition js_ge :: "jsnum \<Rightarrow> jsnum \<Rightarrow> bool" where
  "js_ge a b = js_le b a"

fun js_neg :: "jsnum \<Rightarrow> jsnum" where
  "js_neg NaN = NaN"
| "js_neg (Num a) = Num (- a)"
| "js_neg PosInf = NegInf"
| "js_neg NegInf = PosInf"

text \<open>\<open>x || 0\<close> on a number: \<open>NaN\<close> and zero are falsy.\<close>

definition orZero :: "jsnum \<Rightarrow> jsnum" where
  "orZero x = (if x = NaN \<or> x = Num 0 then Num 0 else x)"

definition isDigit :: "char \<Rightarrow> bool" where
  "isDigit c = (c \<in> set ''0123456789'')"

definition isWhite :: "char \<Rightarrow> bool" where
  "isWhite c = (c \<in> set [CHR '' '', CHR 0x09, CHR 0x0A, CHR 0x0B, CHR 0x0C, CHR 0x0D])"

definition digitVal :: "char \<Rightarrow> nat" where
  "digitVal c = of_char c - 48"

definition digitsVal :: "string \<Rightarrow> nat" where
  "digitsVal ds = foldl (\<lambda>a c. 10 * a + digitVal c) 0 ds"

definition pow10 :: "int \<Rightarrow> rat" where
  "pow10 e = (if 0 \<le> e then 10 ^ nat e else 1 / 10 ^ nat (- e))"

text \<open>
  \<open>parseFloat\<close> skips leading white space (the ASCII white space characters here),
  reads the longest prefix that is a decimal literal (an optional sign, then
  \<open>Infinity\<close> or digits with an optional fraction and exponent) and returns its value
  rounded to binary64, or \<open>NaN\<close> when there is no such prefix. The exponent part is
  \<open>e\<close> or \<open>E\<close>, an optional sign and at least one digit; anything else after the
  mantissa is ignored.
\<close>

definition parseExponent :: "string \<Rightarrow> int" where
  "parseExponent s =
     (case s of
        [] \<Rightarrow> 0
      | c # t \<Rightarrow>
          if c = CHR ''e'' \<or> c = CHR ''E'' then
            (case t of
               [] \<Rightarrow> 0
             | d # u \<Rightarrow>
                 if d = CHR ''+'' then int (digitsVal (takeWhile isDigit u))
                 else if d = CHR ''-'' then - int (digitsVal (takeWhile isDigit u))
                 else int (digitsVal (takeWhile isDigit t)))
          else 0)"

definition parseUnsigned :: "string \<Rightarrow> jsnum" where
  "parseUnsigned s =
     (if take 8 s = ''Infinity'' then PosInf
      else
        let ip = takeWhile isDigit s;
            r1 = dropWhile isDigit s;
            fp = (case r1 of [] \<Rightarrow> [] | c # t \<Rightarrow> if c = CHR ''.'' then takeWhile isDigit t else []);
            r2 = (case r1 of [] \<Rightarrow> [] | c # t \<Rightarrow> if c = CHR ''.'' then dropWhile isDigit t else r1)
        in if ip = [] \<and> fp = [] then NaN
           else round64 ((of_nat (digitsVal ip) + of_nat (digitsVal fp) / 10 ^ length fp)
                          * pow10 (parseExponent r2)))"

definition parseFloat :: "string \<Rightarrow> jsnum" where
  "parseFloat s =
     (case dropWhile isWhite s of
        [] \<Rightarrow> NaN
      | c # t \<Rightarrow>
          if c = CHR ''-'' then js_neg (parseUnsigned t)
          else if c = CHR ''+'' then parseUnsigned t
          else parseUnsigned (c # t))"

text \<open>Reading a property that the object does not have yields \<open>undefined\<close>, and
  \<open>parseFloat\<close> first converts its argument to a string.\<close>

definition toStringJS :: "string option \<Rightarrow> string" where
  "toStringJS x = (case x of None \<Rightarrow> ''undefined'' | Some s \<Rightarrow> s)"

section \<open>The form state and the input handler\<close>

text \<open>
  \<open>formData\<close> is a JavaScript object whose properties are strings. It is modelled as a
  map from property names to strings; \<open>None\<close> stands for \<open>undefined\<close> (a property that
  is missing and a property that holds \<open>undefined\<close> read the same).
\<close>

type_synonym form = "string \<Rightarrow> string option"

definition initialFormData :: form where
  "initialFormData =
     [''creditShort'' \<mapsto> '''', ''creditLong'' \<mapsto> '''', ''timeLimitation'' \<mapsto> '''',
      ''cph'' \<mapsto> '''', ''ctl'' \<mapsto> '''', ''aph'' \<mapsto> '''', ''atl'' \<mapsto> '''',
      ''quarterFluctuation'' \<mapsto> '''', ''resultantFluctuation'' \<mapsto> '''']"

definition toUpperChar :: "char \<Rightarrow> char" where
  "toUpperChar c =
     (if (97::nat) \<le> of_char c \<and> of_char c \<le> (122::nat) then char_of (of_char c - (32::nat)) else c)"

definition toUpperCase :: "string \<Rightarrow> string" where
  "toUpperCase s = map toUpperChar s"

text \<open>The local \<open>calculatedValue\<close> of the \<open>quarterFluctuation\<close> case: the chain of three
  tests leaves it \<open>undefined\<close> when none of them holds (the parsed number is \<open>NaN\<close>).\<close>

definition calculatedValue :: "jsnum \<Rightarrow> string option" where
  "calculatedValue fluctuation =
     (if js_lt fluctuation (Num 0) then Some ''-1''
      else if js_ge fluctuation (Num 0) \<and> js_le fluctuation (Num 3) then Some ''0''
      else if js_gt fluctuation (Num 3) then Some ''1''
      else None)"

text \<open>
  What one call of \<open>handleInputChange\<close> does: it returns without touching the state
  (\<open>Ignored\<close>), it shows an alert and returns without touching the state (\<open>Alerted\<close>), or
  it calls \<open>setFormData\<close> with the updated copy (\<open>Updated\<close>).
\<close>

datatype outcome = Ignored | Alerted string | Updated form

definition handleInputChange :: "form \<Rightarrow> string \<Rightarrow> string \<Rightarrow> outcome" where
  "handleInputChange formData name val =
     (if name = ''cph'' \<or> name = ''ctl'' then
        (if val \<noteq> '''' \<and> val \<notin> set [''1'', ''0'', ''-1''] then Ignored
         else Updated (formData(name \<mapsto> val)))
      else if name = ''aph'' \<or> name = ''atl'' then
        (if val \<noteq> '''' \<and> (js_gt (parseFloat val) (Num 1) \<or> js_lt (parseFloat val) (Num (- 10)))
         then Alerted (''Please enter a value between -10 and 1.0 for '' @ toUpperCase name)
         else Updated (formData(name \<mapsto> val)))
      else if name = ''creditShort'' then
        (if val \<noteq> '''' \<and> val \<notin> set [''1'', ''0'', ''-1''] then Ignored
         else Updated (formData(name \<mapsto> val)))
      else if name = ''quarterFluctuation'' then
        (if val \<noteq> '''' \<and> (js_gt (parseFloat val) (Num 8) \<or> js_lt (parseFloat val) (Num (- 8)))
         then Alerted ''Please enter a value between -8 and 8 for Quarterly Fluctuation''
         else
           let updatedFormData =
                 (if val \<noteq> '''' then
                    (formData(''creditLong'' := calculatedValue (parseFloat val)))
                      (''resultantFluctuation'' := calculatedValue (parseFloat val))
                  else formData(''creditLong'' \<mapsto> '''', ''resultantFluctuation'' \<mapsto> ''''))
           in Updated (updatedFormData(name \<mapsto> val)))
      else Updated (formData(name \<mapsto> val)))"

text \<open>The form state after the event: only \<open>setFormData\<close> changes it.\<close>

definition formAfter :: "form \<Rightarrow> string \<Rightarrow> string \<Rightarrow> form" where
  "formAfter formData name val =
     (case handleInputChange formData name val of
        Updated updatedFormData \<Rightarrow> updatedFormData
      | _ \<Rightarrow> formData)"

section \<open>The fallback simulation and the API call\<close>

text \<open>
  The values that the result of a prediction holds: \<open>undefined\<close> and the JSON values, as
  \<open>response.json()\<close> returns them (a parsed body contains no \<open>undefined\<close>). The
  result object itself is a map from its own property names to values; \<open>None\<close> says
  that the object has no such property, which differs from a property that holds
  \<open>undefined\<close>.
\<close>

datatype jsvalue =
    JUndefined
  | JNull
  | JBool bool
  | JNum rat
  | JStr string
  | JArr "jsvalue list"
  | JObj "(string \<times> jsvalue) list"

type_synonym jsobject = "string \<Rightarrow> jsvalue option"

text \<open>\<open>data.k\<close>: a property of a parsed object (the last binding of a repeated key is the
  one \<open>JSON.parse\<close> keeps); \<open>undefined\<close> when the object lacks it, and on the other
  non-null values, none of which has one of the property names read here.\<close>

fun getProp :: "jsvalue \<Rightarrow> string \<Rightarrow> jsvalue" where
  "getProp (JObj kvs) k = (case map_of (rev kvs) k of None \<Rightarrow> JUndefined | Some v \<Rightarrow> v)"
| "getProp _ k = JUndefined"

definition digitChar :: "nat \<Rightarrow> char" where
  "digitChar n = ''0123456789'' ! n"

function showNat :: "nat \<Rightarrow> string" where
  "showNat n = (if n < 10 then [digitChar n] else showNat (n div 10) @ [digitChar (n mod 10)])"
  by pat_completeness auto
termination
  by (relation "measure id") auto

declare showNat.simps [simp del]

text \<open>
  \<open>x.toFixed(1)\<close>: for a finite \<open>x\<close> of magnitude below \<open>10^21\<close>, the integer \<open>n\<close> with
  \<open>n / 10\<close> nearest to \<open>x\<close> (the larger one on a tie), printed with one digit after the
  point; a negative \<open>x\<close> is printed as \<open>-\<close> followed by the result for \<open>-x\<close>. (From
  \<open>10^21\<close> on \<open>toFixed\<close> prints the number in exponent notation, which is not modelled;
  the confidences of the page are below 100.)
\<close>

definition toFixed1 :: "jsnum \<Rightarrow> string" where
  "toFixed1 x =
     (case x of
        NaN \<Rightarrow> ''NaN''
      | PosInf \<Rightarrow> ''Infinity''
      | NegInf \<Rightarrow> ''-Infinity''
      | Num q \<Rightarrow>
          let n = nat \<lfloor>\<bar>q\<bar> * 10 + 1 / 2\<rfloor>
          in (if q < 0 then ''-'' else '''') @ showNat (n div 10) @ ''.'' @ showNat (n mod 10))"

text \<open>The local \<open>score\<close> of \<open>simulatePrediction\<close>; \<open>round64 (7 / 10)\<close> is the number that the
  literal \<open>0.7\<close> denotes.\<close>

definition simulationScore :: "form \<Rightarrow> nat" where
  "simulationScore formData =
     (let creditShort = orZero (parseFloat (toStringJS (formData ''creditShort'')));
          creditLong = orZero (parseFloat (toStringJS (formData ''creditLong'')))
      in (if js_gt creditShort (Num 650) then 30 else 0)
       + (if js_gt creditLong (Num 650) then 30 else 0)
       + (if formData ''paymentHistory'' = Some ''excellent'' then 25 else 0)
       + (if js_gt (parseFloat (toStringJS (formData ''cph''))) (round64 (7 / 10)) then 15 else 0))"

text \<open>
  \<open>simulatePrediction\<close> reads \<open>formData\<close> and calls \<open>Math.random()\<close> once, in the branch
  that the score selects; the number drawn (a binary64 number in \<open>[0, 1)\<close>) is the
  second argument. The object it returns has the four properties \<open>prediction\<close>,
  \<open>confidence\<close>, \<open>loanRange\<close> and \<open>factors\<close>.
\<close>

definition simulatePrediction :: "form \<Rightarrow> rat \<Rightarrow> jsobject" where
  "simulatePrediction formData random =
     (let creditShort = orZero (parseFloat (toStringJS (formData ''creditShort'')));
          score = simulationScore formData;
          (result, confidence, loanRange) =
            (if 80 \<le> score then
               (''Very_Good'', js_add (Num 92) (js_mul (Num random) (Num 6)), ''$50,000 - $200,000'')
             else if 50 \<le> score then
               (''Normal'', js_add (Num 75) (js_mul (Num random) (Num 15)), ''$10,000 - $50,000'')
             else
               (''Very_Bad'', js_add (Num 60) (js_mul (Num random) (Num 20)), ''Not eligible''))
      in [''prediction'' \<mapsto> JStr result,
          ''confidence'' \<mapsto> JStr (toFixed1 confidence),
          ''loanRange'' \<mapsto> JStr loanRange,
          ''factors'' \<mapsto> JObj
             [(''creditScore'',
                 JStr (if js_gt creditShort (Num 650) then ''Positive'' else ''Needs Improvement'')),
              (''paymentHistory'',
                 JStr (if formData ''paymentHistory'' = Some ''excellent''
                       then ''Excellent'' else ''Needs Improvement'')),
              (''debtRatio'',
                 JStr (if js_gt (parseFloat (toStringJS (formData ''cph''))) (round64 (7 / 10))
                       then ''Good'' else ''High Risk''))]])"

section \<open>The page state and its events\<close>

text \<open>
  The state hooks of the \<open>Prediction\<close> component that the prediction path reads or
  writes. \<open>selectedModels\<close> is an object with one list of model keys per service;
  \<open>specificModel\<close> is \<open>null\<close> (\<open>None\<close>) or the key of the chosen model.
\<close>

record uiState =
  formData :: form
  prediction :: "jsobject option"
  loading :: bool
  showChart :: bool
  selectedService :: string
  selectedModels :: "string \<Rightarrow> string list option"
  specificModel :: "string option"

definition initialState :: uiState where
  "initialState =
     \<lparr>formData = initialFormData,
      prediction = None,
      loading = False,
      showChart = False,
      selectedService = ''loan'',
      selectedModels = [''loan'' \<mapsto> [''xgboost'', ''random_forest''],
                        ''classification'' \<mapsto> [''knn'', ''logistic'']],
      specificModel = None\<rparr>"

text \<open>Truthiness of \<open>specificModel\<close>: \<open>null\<close> and the empty string are falsy.\<close>

definition truthy :: "string option \<Rightarrow> bool" where
  "truthy x = (case x of None \<Rightarrow> False | Some s \<Rightarrow> s \<noteq> '''')"

text \<open>The body of the POST request: the spread form fields, \<open>serviceType\<close> and
  \<open>selectedModels\<close> (\<open>undefined\<close> when the service has no entry in the object).\<close>

record request =
  body_formData :: form
  body_serviceType :: string
  body_selectedModels :: "string list option"

definition requestBody :: "uiState \<Rightarrow> request" where
  "requestBody st =
     \<lparr>body_formData = formData st,
      body_serviceType = selectedService st,
      body_selectedModels =
        (case specificModel st of
           None \<Rightarrow> selectedModels st (selectedService st)
         | Some k \<Rightarrow> if k \<noteq> '''' then Some [k] else selectedModels st (selectedService st))\<rparr>"

text \<open>
  What \<open>fetch\<close> and \<open>response.json()\<close> deliver: the request fails, or a response arrives
  with a status and a body that parses as JSON (\<open>Some\<close>) or does not (\<open>None\<close>).
\<close>

datatype fetchResult = NetworkError | Response nat "jsvalue option"

definition responseOk :: "nat \<Rightarrow> bool" where
  "responseOk status = (200 \<le> status \<and> status \<le> 299)"

text \<open>The object that \<open>callPredictionAPI\<close> builds from the parsed body \<open>data\<close>.\<close>

definition apiResult :: "jsvalue \<Rightarrow> jsobject" where
  "apiResult data =
     [''prediction'' \<mapsto> getProp data ''prediction'',
      ''confidence'' \<mapsto> getProp data ''confidence'',
      ''loanRange'' \<mapsto> getProp data ''loan_range'',
      ''factors'' \<mapsto> getProp data ''factors'',
      ''modelPredictions'' \<mapsto> getProp data ''model_predictions'',
      ''processingTime'' \<mapsto> getProp data ''processing_time_ms'']"

text \<open>
  \<open>callPredictionAPI\<close>: every exception inside the \<open>try\<close> block (a failed fetch, a
  status that is not ok, a body that is not JSON, a property read on \<open>null\<close>) ends in
  the \<open>catch\<close> block, which returns \<open>simulatePrediction()\<close>.
\<close>

definition callPredictionAPI :: "uiState \<Rightarrow> fetchResult \<Rightarrow> rat \<Rightarrow> jsobject" where
  "callPredictionAPI st reply random =
     (case reply of
        NetworkError \<Rightarrow> simulatePrediction (formData st) random
      | Response status body \<Rightarrow>
          if \<not> responseOk status then simulatePrediction (formData st) random
          else
            (case body of
               None \<Rightarrow> simulatePrediction (formData st) random
             | Some JNull \<Rightarrow> simulatePrediction (formData st) random
             | Some JUndefined \<Rightarrow> simulatePrediction (formData st) random
             | Some data \<Rightarrow> apiResult data))"

text \<open>
  \<open>handleSubmit\<close>: without a chosen model it alerts and returns; otherwise it awaits
  \<open>callPredictionAPI()\<close> (which cannot throw, every failure being caught there), stores
  the result and shows the chart. \<open>loading\<close> is set during the call and cleared in the
  \<open>finally\<close> block.
\<close>

definition handleSubmit :: "uiState \<Rightarrow> fetchResult \<Rightarrow> rat \<Rightarrow> uiState" where
  "handleSubmit st reply random =
     (if \<not> truthy (specificModel st) then st
      else st\<lparr>prediction := Some (callPredictionAPI st reply random),
              showChart := True,
              loading := False\<rparr>)"

text \<open>The request that a submit sends, if it sends one.\<close>

definition sentRequest :: "uiState \<Rightarrow> request option" where
  "sentRequest st = (if \<not> truthy (specificModel st) then None else Some (requestBody st))"

definition resetForm :: "uiState \<Rightarrow> uiState" where
  "resetForm st =
     st\<lparr>formData :=
          [''creditShort'' \<mapsto> '''', ''creditLong'' \<mapsto> '''', ''timeLimitation'' \<mapsto> '''',
           ''cph'' \<mapsto> '''', ''ctl'' \<mapsto> '''', ''aph'' \<mapsto> '''', ''atl'' \<mapsto> '''',
           ''quarterFluctuation'' \<mapsto> '''', ''resultantFluctuation'' \<mapsto> ''''],
        prediction := None,
        showChart := False,
        specificModel := None\<rparr>"

text \<open>
  The four model buttons are rendered from a literal array; \<open>key\<close> and \<open>service\<close> are
  the two properties that the click handler reads.
\<close>

definition modelCards :: "(string \<times> string) list" where
  "modelCards =
     [(''xgboost'', ''loan''),
      (''random_forest'', ''loan''),
      (''logistic'', ''classification''),
      (''knn'', ''classification'')]"

definition selectModel :: "uiState \<Rightarrow> string \<times> string \<Rightarrow> uiState" where
  "selectModel st model =
     st\<lparr>specificModel := Some (fst model),
        selectedService := snd model,
        prediction := None,
        showChart := False\<rparr>"

text \<open>
  The form has six controls wired to \<open>handleInputChange\<close> (three drop-downs, three
  number inputs). The inputs named \<open>creditLong\<close> and \<open>resultantFluctuation\<close> are
  \<open>readOnly\<close> and have no \<open>onChange\<close>, so no change event carries their names.
\<close>

datatype inputField = CreditShort | Cph | Ctl | Aph | Atl | QuarterFluctuation

fun fieldName :: "inputField \<Rightarrow> string" where
  "fieldName CreditShort = ''creditShort''"
| "fieldName Cph = ''cph''"
| "fieldName Ctl = ''ctl''"
| "fieldName Aph = ''aph''"
| "fieldName Atl = ''atl''"
| "fieldName QuarterFluctuation = ''quarterFluctuation''"

text \<open>
  The events of the page that reach this state: a change of one of the six controls
  with the control's new value, a click on the \<open>i\<close>-th model button, a submit (with
  what the network then delivers and the number \<open>Math.random()\<close> would draw), and a
  click on Reset.
\<close>

datatype event =
    Change inputField string
  | ModelClick nat
  | Submit fetchResult rat
  | ResetClick

fun step :: "uiState \<Rightarrow> event \<Rightarrow> uiState" where
  "step st (Change f val) = st\<lparr>formData := formAfter (formData st) (fieldName f) val\<rparr>"
| "step st (ModelClick i) = (if i < length modelCards then selectModel st (modelCards ! i) else st)"
| "step st (Submit reply random) = handleSubmit st reply random"
| "step st ResetClick = resetForm st"

definition run :: "event list \<Rightarrow> uiState" where
  "run es = foldl step initialState es"

section \<open>The category-to-range mapper\<close>

datatype label = Very_Good | Normal | Very_Bad

fun labelName :: "label \<Rightarrow> string" where
  "labelName Very_Good = ''Very_Good''"
| "labelName Normal = ''Normal''"
| "labelName Very_Bad = ''Very_Bad''"

text \<open>
  Modelled from the spec: \<open>mapRange\<close>, the category-to-range mapper of the decision
  engine (section 4.5). The engine runs in the back end, which is not among the
  sources; the page only receives its \<open>loan_range\<close>.
\<close>

fun mapRange :: "label \<Rightarrow> string" where
  "mapRange Very_Good = ''$50,000 - $200,000''"
| "mapRange Normal = ''$10,000 - $50,000''"
| "mapRange Very_Bad = ''Not eligible''"

section \<open>Input domains and sample replies used in the statements\<close>

text \<open>
  The validated input domain: the three discrete fields hold one of \<open>1\<close>, \<open>0\<close>, \<open>-1\<close>;
  \<open>aph\<close> and \<open>atl\<close> parse to a number in \<open>[-10, 1]\<close>; \<open>quarterFluctuation\<close> parses to a
  number in \<open>[-8, 8]\<close>; the two derived fields hold the value calculated from
  \<open>quarterFluctuation\<close>; the form has no property \<open>paymentHistory\<close>.
\<close>

definition isDiscrete :: "string option \<Rightarrow> bool" where
  "isDiscrete x = (x = Some ''1'' \<or> x = Some ''0'' \<or> x = Some ''-1'')"

definition inRange :: "string option \<Rightarrow> rat \<Rightarrow> rat \<Rightarrow> bool" where
  "inRange x lo hi =
     (case x of
        None \<Rightarrow> False
      | Some v \<Rightarrow> (case parseFloat v of Num q \<Rightarrow> lo \<le> q \<and> q \<le> hi | _ \<Rightarrow> False))"

definition validatedForm :: "form \<Rightarrow> bool" where
  "validatedForm fd =
     (isDiscrete (fd ''creditShort'') \<and> isDiscrete (fd ''cph'') \<and> isDiscrete (fd ''ctl'')
      \<and> inRange (fd ''aph'') (- 10) 1 \<and> inRange (fd ''atl'') (- 10) 1
      \<and> inRange (fd ''quarterFluctuation'') (- 8) 8
      \<and> fd ''creditLong'' = calculatedValue (parseFloat (toStringJS (fd ''quarterFluctuation'')))
      \<and> fd ''resultantFluctuation'' = calculatedValue (parseFloat (toStringJS (fd ''quarterFluctuation'')))
      \<and> fd ''paymentHistory'' = None)"

text \<open>A form filled through the page's controls.\<close>

definition filledForm :: form where
  "filledForm = formData (run [Change CreditShort ''1'', Change Cph ''1'', Change Ctl ''0'',
       Change Aph ''0.5'', Change Atl ''-2'', Change QuarterFluctuation ''4''])"

text \<open>The replies on which \<open>callPredictionAPI\<close> ends in its \<open>catch\<close> block.\<close>

fun apiFailed :: "fetchResult \<Rightarrow> bool" where
  "apiFailed NetworkError = True"
| "apiFailed (Response status body) =
     (\<not> responseOk status \<or> body = None \<or> body = Some JNull \<or> body = Some JUndefined)"

text \<open>A response body with the four properties the page shows and neither
  \<open>model_predictions\<close> nor \<open>processing_time_ms\<close>.\<close>

definition untaggedReply :: jsvalue where
  "untaggedReply =
     JObj [(''prediction'', JStr ''Very_Bad''),
           (''confidence'', JStr ''60.0''),
           (''loan_range'', JStr ''Not eligible''),
           (''factors'', JObj [(''creditScore'', JStr ''Needs Improvement''),
                               (''paymentHistory'', JStr ''Needs Improvement''),
                               (''debtRatio'', JStr ''High Risk'')])]"

section \<open>Invariants of the page state\<close>

text \<open>The value that the \<open>quarterFluctuation\<close> case assigns to both derived fields for a
  stored \<open>quarterFluctuation\<close> value, and the invariant that ties the three fields.\<close>

definition expectedDerived :: "string \<Rightarrow> string option" where
  "expectedDerived v = (if v \<noteq> '''' then calculatedValue (parseFloat v) else Some '''')"

definition derivedInv :: "form \<Rightarrow> bool" where
  "derivedInv fd =
     (case fd ''quarterFluctuation'' of
        None \<Rightarrow> False
      | Some v \<Rightarrow> fd ''creditLong'' = expectedDerived v
                 \<and> fd ''resultantFluctuation'' = expectedDerived v)"

text \<open>A request whose models are among the four known keys and all belong, by the
  table of model buttons, to the request's \<open>serviceType\<close>.\<close>

definition consistentRequest :: "request \<Rightarrow> bool" where
  "consistentRequest req =
     (case body_selectedModels req of
        None \<Rightarrow> False
      | Some ms \<Rightarrow>
          set ms \<subseteq> {''xgboost'', ''random_forest'', ''logistic'', ''knn''}
          \<and> (\<forall>m \<in> set ms. map_of modelCards m = Some (body_serviceType req)))"

text \<open>The model selection of a state: \<open>selectedModels\<close> still is the initial object,
  the service is one of the two, and a chosen model is a button whose service is the
  selected one.\<close>

definition modelInv :: "uiState \<Rightarrow> bool" where
  "modelInv st =
     (selectedModels st = selectedModels initialState
      \<and> (selectedService st = ''loan'' \<or> selectedService st = ''classification'')
      \<and> (case specificModel st of
            None \<Rightarrow> True
          | Some k \<Rightarrow> (k, selectedService st) \<in> set modelCards))"

section \<open>Properties of the number model\<close>

text \<open>\<open>exponentOf\<close> finds the binary exponent of every positive rational.\<close>

lemma ilog2_one: "ilog2 (Suc 0) = 0"
  by (subst ilog2.simps) simp

lemma ilog2_step: "\<not> n < 2 \<Longrightarrow> ilog2 n = Suc (ilog2 (n div 2))"
  by (subst ilog2.simps) simp

lemma ilog2_bounds:
  "0 < n \<Longrightarrow> 2 ^ ilog2 n \<le> n \<and> n < 2 * 2 ^ ilog2 n"
proof (induction n rule: less_induct)
  case (less n)
  show ?case
  proof (cases "n < 2")
    case True
    with less.prems have "n = Suc 0"
      by simp
    then show ?thesis
      by (simp add: ilog2_one)
  next
    case False
    then have "n div 2 < n" and "0 < n div 2"
      by simp_all
    from less.IH [OF this] have ih: "2 ^ ilog2 (n div 2) \<le> n div 2"
      "n div 2 < 2 * 2 ^ ilog2 (n div 2)"
      by simp_all
    have d: "2 * (n div 2) \<le> n" "n < 2 * (n div 2) + 2"
      by presburger+
    show ?thesis
      using ih d by (simp add: ilog2_step [OF False])
  qed
qed

lemma exponentOf_bounds:
  assumes "0 < a"
  shows "pow2 (exponentOf a) \<le> a \<and> a < pow2 (exponentOf a + 1)"
proof (cases "1 \<le> a")
  case True
  define n where "n = nat \<lfloor>a\<rfloor>"
  define k where "k = ilog2 n"
  have f: "1 \<le> \<lfloor>a\<rfloor>"
    using True by simp
  then have n0: "0 < n"
    by (simp add: n_def)
  have n1: "of_nat n \<le> a"
    using f by (simp add: n_def)
  have n2: "a < of_nat n + 1"
    using f by (simp add: n_def) linarith
  from ilog2_bounds [OF n0] have b: "2 ^ k \<le> n" "n + 1 \<le> 2 * 2 ^ k"
    by (simp_all add: k_def)
  have p: "(2::rat) ^ k = of_nat (2 ^ k)" "(2::rat) * 2 ^ k = of_nat (2 * 2 ^ k)"
    by simp_all
  have q: "(of_nat n + 1 :: rat) = of_nat (n + 1)"
    by simp
  have "(of_nat (2 ^ k) :: rat) \<le> of_nat n"
    using b(1) by (simp only: of_nat_le_iff)
  then have lo: "(2::rat) ^ k \<le> a"
    unfolding p(1) using n1 by (rule order_trans)
  have "(of_nat (n + 1) :: rat) \<le> of_nat (2 * 2 ^ k)"
    using b(2) by (simp only: of_nat_le_iff)
  with n2 have hi: "a < 2 * 2 ^ k"
    unfolding p(2) q by (rule less_le_trans)
  have "exponentOf a = int k"
    using True by (simp add: exponentOf_def n_def k_def)
  then show ?thesis
    using lo hi by (simp add: pow2_def nat_add_distrib)
next
  case False
  define m where "m = nat \<lceil>1 / a\<rceil>"
  define k where "k = ilog2 (m - 1)"
  have r: "1 < 1 / a"
    using False assms by simp
  then have c: "2 \<le> \<lceil>1 / a\<rceil>"
    by linarith
  then have m0: "0 < m - 1"
    by (simp add: m_def)
  have m1: "of_nat (m - 1) < 1 / a"
    using c by (simp add: m_def of_nat_diff) linarith
  have m2: "1 / a \<le> of_nat m"
    using c by (simp add: m_def)
  from ilog2_bounds [OF m0] have b0: "2 ^ k \<le> m - 1" "m - 1 < 2 * 2 ^ k"
    by (simp_all add: k_def)
  from b0(2) m0 have "m \<le> 2 * 2 ^ k"
    by linarith
  with b0(1) have b: "2 ^ k \<le> m - 1" "m \<le> 2 * 2 ^ k"
    by simp_all
  have p: "(2::rat) ^ k = of_nat (2 ^ k)" "(2::rat) * 2 ^ k = of_nat (2 * 2 ^ k)"
    by simp_all
  have "(of_nat (2 ^ k) :: rat) \<le> of_nat (m - 1)"
    using b(1) by (simp only: of_nat_le_iff)
  then have lo: "(2::rat) ^ k < 1 / a"
    unfolding p(1) using m1 by (rule le_less_trans)
  have "(of_nat m :: rat) \<le> of_nat (2 * 2 ^ k)"
    using b(2) by (simp only: of_nat_le_iff)
  with m2 have hi: "1 / a \<le> 2 * 2 ^ k"
    unfolding p(2) by (rule order_trans)
  have e: "exponentOf a = - (int k + 1)"
    using False by (simp add: exponentOf_def m_def k_def)
  have "1 / (2 * 2 ^ k) \<le> a"
    using hi assms by (simp add: field_simps)
  moreover have "a < 1 / 2 ^ k"
    using lo assms by (simp add: field_simps)
  ultimately show ?thesis
    by (auto simp add: e pow2_def nat_add_distrib)
qed

text \<open>Three well-known roundings: the literals \<open>0.1\<close>, \<open>0.7\<close> and \<open>1.01\<close>.\<close>

lemma round64_examples:
  "round64 (1 / 10) = Num (3602879701896397 / 36028797018963968)"
  "round64 (7 / 10) = Num (3152519739159347 / 4503599627370496)"
  "round64 (101 / 100) = Num (4548635623644201 / 4503599627370496)"
  by code_simp+

section \<open>Properties of the input handler\<close>

lemma parseFloat_empty: "parseFloat '''' = NaN"
  by (simp add: parseFloat_def)

lemma parseFloat_Num_nonempty: "parseFloat val = Num q \<Longrightarrow> val \<noteq> ''''"
  using parseFloat_empty by auto

lemma js_lt_NaN_right [simp]: "js_lt x NaN = False"
  by (cases x) simp_all

text \<open>
  Claim C1. For a \<open>quarterFluctuation\<close> value that parses to the number \<open>q\<close>, the handler
  rejects it with an alert when \<open>q\<close> is outside \<open>[-8, 8]\<close>; otherwise it stores the value
  and sets both \<open>creditLong\<close> and \<open>resultantFluctuation\<close> to \<open>-1\<close> when \<open>q < 0\<close>, to \<open>0\<close>
  when \<open>0 \<le> q \<le> 3\<close>, and to \<open>1\<close> when \<open>q > 3\<close>.
\<close>

theorem quarterFluctuation_derives_fields:
  assumes "parseFloat val = Num q"
  shows "handleInputChange fd ''quarterFluctuation'' val =
           (if q < - 8 \<or> 8 < q
            then Alerted ''Please enter a value between -8 and 8 for Quarterly Fluctuation''
            else Updated (fd(''creditLong'' \<mapsto> (if q < 0 then ''-1'' else if q \<le> 3 then ''0'' else ''1''),
                             ''resultantFluctuation'' \<mapsto> (if q < 0 then ''-1'' else if q \<le> 3 then ''0'' else ''1''),
                             ''quarterFluctuation'' \<mapsto> val)))"
proof -
  have ne: "val \<noteq> ''''"
    using assms by (rule parseFloat_Num_nonempty)
  show ?thesis
    using assms ne
    by (simp add: handleInputChange_def calculatedValue_def js_gt_def js_ge_def js_le_def Let_def)
qed

theorem quarterFluctuation_derives_fields_witness:
  "parseFloat ''-0.5'' = Num (- 0.5) \<and> parseFloat ''3'' = Num 3 \<and> parseFloat ''3.5'' = Num 3.5
   \<and> handleInputChange initialFormData ''quarterFluctuation'' ''-0.5'' =
       Updated (initialFormData(''creditLong'' \<mapsto> ''-1'', ''resultantFluctuation'' \<mapsto> ''-1'',
                                ''quarterFluctuation'' \<mapsto> ''-0.5''))
   \<and> handleInputChange initialFormData ''quarterFluctuation'' ''3'' =
       Updated (initialFormData(''creditLong'' \<mapsto> ''0'', ''resultantFluctuation'' \<mapsto> ''0'',
                                ''quarterFluctuation'' \<mapsto> ''3''))
   \<and> handleInputChange initialFormData ''quarterFluctuation'' ''3.5'' =
       Updated (initialFormData(''creditLong'' \<mapsto> ''1'', ''resultantFluctuation'' \<mapsto> ''1'',
                                ''quarterFluctuation'' \<mapsto> ''3.5''))"
proof -
  have a: "parseFloat ''-0.5'' = Num (- 0.5)"
    by code_simp
  have b: "parseFloat ''3'' = Num 3"
    by code_simp
  have c: "parseFloat ''3.5'' = Num 3.5"
    by code_simp
  show ?thesis
    using a b c
      quarterFluctuation_derives_fields [OF a, of initialFormData]
      quarterFluctuation_derives_fields [OF b, of initialFormData]
      quarterFluctuation_derives_fields [OF c, of initialFormData]
    by simp
qed

lemma discrete_step:
  assumes "name = ''creditShort'' \<or> name = ''cph'' \<or> name = ''ctl''"
  shows "handleInputChange fd name val =
           (if val \<noteq> '''' \<and> val \<notin> set [''1'', ''0'', ''-1''] then Ignored
            else Updated (fd(name \<mapsto> val)))"
  using assms unfolding handleInputChange_def by fastforce

text \<open>
  Claim C2. For \<open>creditShort\<close>, \<open>cph\<close> and \<open>ctl\<close> the handler stores the value when it is
  one of the strings \<open>1\<close>, \<open>0\<close>, \<open>-1\<close>, and returns without any state update for every
  other non-empty value. (The empty value, the placeholder option of the drop-down,
  clears the field.)
\<close>

theorem discrete_fields_accept_exactly:
  assumes "name \<in> {''creditShort'', ''cph'', ''ctl''}"
  shows "(val \<in> {''1'', ''0'', ''-1''} \<longrightarrow>
            handleInputChange fd name val = Updated (fd(name \<mapsto> val))
            \<and> formAfter fd name val name = Some val)
       \<and> (val \<notin> {''1'', ''0'', ''-1''} \<and> val \<noteq> '''' \<longrightarrow>
            handleInputChange fd name val = Ignored \<and> formAfter fd name val = fd)
       \<and> (val = '''' \<longrightarrow> handleInputChange fd name val = Updated (fd(name \<mapsto> '''')))"
proof -
  have n: "name = ''creditShort'' \<or> name = ''cph'' \<or> name = ''ctl''"
    using assms by simp
  show ?thesis
    by (simp add: discrete_step [OF n] formAfter_def)
qed

theorem discrete_fields_accept_exactly_witness:
  "handleInputChange initialFormData ''cph'' ''-1'' = Updated (initialFormData(''cph'' \<mapsto> ''-1''))
   \<and> handleInputChange initialFormData ''cph'' ''2'' = Ignored
   \<and> formAfter initialFormData ''cph'' ''2'' = initialFormData"
proof -
  have n: "''cph'' \<in> {''creditShort'', ''cph'', ''ctl''}"
    by simp
  have a: "handleInputChange initialFormData ''cph'' ''-1'' = Updated (initialFormData(''cph'' \<mapsto> ''-1''))"
    using discrete_fields_accept_exactly [OF n, of "''-1''" initialFormData] by simp
  have b: "handleInputChange initialFormData ''cph'' ''2'' = Ignored
   \<and> formAfter initialFormData ''cph'' ''2'' = initialFormData"
    using discrete_fields_accept_exactly [OF n, of "''2''" initialFormData] by simp
  show ?thesis
    using a b by blast
qed

lemma continuous_step:
  assumes "name = ''aph'' \<or> name = ''atl''"
  shows "handleInputChange fd name val =
           (if val \<noteq> '''' \<and> (js_gt (parseFloat val) (Num 1) \<or> js_lt (parseFloat val) (Num (- 10)))
            then Alerted (''Please enter a value between -10 and 1.0 for '' @ toUpperCase name)
            else Updated (fd(name \<mapsto> val)))"
  using assms unfolding handleInputChange_def by fastforce

text \<open>
  Claim C3. For \<open>aph\<close> and \<open>atl\<close>, a value that parses to the number \<open>q\<close> is stored when
  \<open>-10 \<le> q \<le> 1\<close> and is rejected with an alert, the form state unchanged, when \<open>q < -10\<close>
  or \<open>q > 1\<close>. The witness evaluates the boundary inputs \<open>1.0\<close>, \<open>1.01\<close>, \<open>-10.0\<close> and
  \<open>-10.01\<close>.
\<close>

theorem continuous_fields_closed_interval:
  assumes "name \<in> {''aph'', ''atl''}" and "parseFloat val = Num q"
  shows "(- 10 \<le> q \<and> q \<le> 1 \<longrightarrow>
            handleInputChange fd name val = Updated (fd(name \<mapsto> val))
            \<and> formAfter fd name val name = Some val)
       \<and> (q < - 10 \<or> 1 < q \<longrightarrow>
            handleInputChange fd name val =
              Alerted (''Please enter a value between -10 and 1.0 for '' @ toUpperCase name)
            \<and> formAfter fd name val = fd)"
proof -
  have ne: "val \<noteq> ''''"
    using assms(2) by (rule parseFloat_Num_nonempty)
  have n: "name = ''aph'' \<or> name = ''atl''"
    using assms(1) by simp
  show ?thesis
    using ne assms(2) by (auto simp add: continuous_step [OF n] formAfter_def js_gt_def)
qed

theorem continuous_fields_closed_interval_witness:
  "handleInputChange initialFormData ''aph'' ''1.0'' = Updated (initialFormData(''aph'' \<mapsto> ''1.0''))
   \<and> handleInputChange initialFormData ''aph'' ''1.01'' =
       Alerted ''Please enter a value between -10 and 1.0 for APH''
   \<and> formAfter initialFormData ''aph'' ''1.01'' = initialFormData
   \<and> handleInputChange initialFormData ''aph'' ''-10.0'' = Updated (initialFormData(''aph'' \<mapsto> ''-10.0''))
   \<and> handleInputChange initialFormData ''aph'' ''-10.01'' =
       Alerted ''Please enter a value between -10 and 1.0 for APH''
   \<and> formAfter initialFormData ''aph'' ''-10.01'' = initialFormData"
proof -
  have n: "''aph'' \<in> {''aph'', ''atl''}"
    by simp
  have a: "parseFloat ''1.0'' = Num 1"
    by code_simp
  have b: "parseFloat ''1.01'' = Num (4548635623644201 / 4503599627370496)"
    by code_simp
  have c: "parseFloat ''-10.0'' = Num (- 10)"
    by code_simp
  have d: "parseFloat ''-10.01'' = Num (- (5635129033747333 / 562949953421312))"
    by code_simp
  have up: "toUpperCase ''aph'' = ''APH''"
    by code_simp
  have a': "handleInputChange initialFormData ''aph'' ''1.0'' = Updated (initialFormData(''aph'' \<mapsto> ''1.0''))"
    using continuous_fields_closed_interval [OF n a, of initialFormData] by simp
  have b': "handleInputChange initialFormData ''aph'' ''1.01'' =
       Alerted ''Please enter a value between -10 and 1.0 for APH''
   \<and> formAfter initialFormData ''aph'' ''1.01'' = initialFormData"
    using continuous_fields_closed_interval [OF n b, of initialFormData] by (simp add: up)
  have c': "handleInputChange initialFormData ''aph'' ''-10.0'' = Updated (initialFormData(''aph'' \<mapsto> ''-10.0''))"
    using continuous_fields_closed_interval [OF n c, of initialFormData] by simp
  have d': "handleInputChange initialFormData ''aph'' ''-10.01'' =
       Alerted ''Please enter a value between -10 and 1.0 for APH''
   \<and> formAfter initialFormData ''aph'' ''-10.01'' = initialFormData"
    using continuous_fields_closed_interval [OF n d, of initialFormData] by (simp add: up)
  show ?thesis
    using a' b' c' d' by blast
qed

subsection \<open>Values at the edge of the range checks\<close>

text \<open>
  The range checks compare the number that \<open>parseFloat\<close> returns. A decimal string
  slightly above 1 that rounds to the binary64 number 1 is therefore stored, and so is
  a string that is no number at all, since every comparison with \<open>NaN\<close> is false (the
  number inputs of the page deliver the empty string in that case); for
  \<open>quarterFluctuation\<close> such a string leaves both derived fields \<open>undefined\<close>.
\<close>

lemma decimal_next_to_one_is_stored:
  "handleInputChange fd ''aph'' ''1.00000000000000001'' =
     Updated (fd(''aph'' \<mapsto> ''1.00000000000000001''))"
proof -
  have "parseFloat ''1.00000000000000001'' = Num 1"
    by code_simp
  then show ?thesis
    by (simp add: handleInputChange_def js_gt_def)
qed

lemma nonnumeric_value_is_stored:
  "handleInputChange fd ''aph'' ''abc'' = Updated (fd(''aph'' \<mapsto> ''abc''))"
proof -
  have "parseFloat ''abc'' = NaN"
    by code_simp
  then show ?thesis
    by (simp add: handleInputChange_def js_gt_def)
qed

lemma nonnumeric_quarterFluctuation_clears_derived:
  "handleInputChange fd ''quarterFluctuation'' ''abc'' =
     Updated (fd(''creditLong'' := None, ''resultantFluctuation'' := None,
                 ''quarterFluctuation'' \<mapsto> ''abc''))"
proof -
  have "parseFloat ''abc'' = NaN"
    by code_simp
  then show ?thesis
    by (simp add: handleInputChange_def calculatedValue_def js_gt_def js_ge_def js_le_def)
qed

section \<open>Properties of the fallback simulation\<close>

lemma simulatePrediction_prediction:
  "simulatePrediction fd r ''prediction'' =
     Some (JStr (if 80 \<le> simulationScore fd then ''Very_Good''
                 else if 50 \<le> simulationScore fd then ''Normal'' else ''Very_Bad''))"
  by (simp add: simulatePrediction_def Let_def)

lemma simulatePrediction_loanRange:
  "simulatePrediction fd r ''loanRange'' =
     Some (JStr (if 80 \<le> simulationScore fd then ''$50,000 - $200,000''
                 else if 50 \<le> simulationScore fd then ''$10,000 - $50,000'' else ''Not eligible''))"
  by (simp add: simulatePrediction_def Let_def)

lemma simulatePrediction_confidence:
  "simulatePrediction fd r ''confidence'' =
     Some (JStr (toFixed1
        (if 80 \<le> simulationScore fd then js_add (Num 92) (js_mul (Num r) (Num 6))
         else if 50 \<le> simulationScore fd then js_add (Num 75) (js_mul (Num r) (Num 15))
         else js_add (Num 60) (js_mul (Num r) (Num 20)))))"
  by (simp add: simulatePrediction_def Let_def)

lemma simulatePrediction_factors:
  "simulatePrediction fd r1 ''factors'' = simulatePrediction fd r2 ''factors''"
  by (simp add: simulatePrediction_def Let_def split: prod.splits)

lemma simulatePrediction_dom:
  "dom (simulatePrediction fd r) = {''prediction'', ''confidence'', ''loanRange'', ''factors''}"
proof -
  have "dom (simulatePrediction fd r) = {''factors'', ''loanRange'', ''confidence'', ''prediction''}"
    by (simp add: simulatePrediction_def Let_def split: prod.splits)
  also have "\<dots> = {''prediction'', ''confidence'', ''loanRange'', ''factors''}"
    by blast
  finally show ?thesis .
qed

text \<open>
  Claim C4. \<open>mapRange\<close> sends \<open>Very_Good\<close>, \<open>Normal\<close> and \<open>Very_Bad\<close> to the three range
  strings, and on every form and every random draw the fallback returns a label of
  the closed set together with the range that \<open>mapRange\<close> gives for that label.
\<close>

theorem fallback_range_follows_mapRange:
  "mapRange Very_Good = ''$50,000 - $200,000''
   \<and> mapRange Normal = ''$10,000 - $50,000''
   \<and> mapRange Very_Bad = ''Not eligible''
   \<and> (\<exists>l. simulatePrediction fd r ''prediction'' = Some (JStr (labelName l))
          \<and> simulatePrediction fd r ''loanRange'' = Some (JStr (mapRange l)))"
proof -
  consider (hi) "80 \<le> simulationScore fd"
    | (mid) "\<not> 80 \<le> simulationScore fd" "50 \<le> simulationScore fd"
    | (lo) "\<not> 80 \<le> simulationScore fd" "\<not> 50 \<le> simulationScore fd"
    by blast
  then have "\<exists>l. simulatePrediction fd r ''prediction'' = Some (JStr (labelName l))
          \<and> simulatePrediction fd r ''loanRange'' = Some (JStr (mapRange l))"
  proof cases
    case hi
    then have "simulatePrediction fd r ''prediction'' = Some (JStr (labelName Very_Good))
          \<and> simulatePrediction fd r ''loanRange'' = Some (JStr (mapRange Very_Good))"
      by (simp add: simulatePrediction_prediction simulatePrediction_loanRange)
    then show ?thesis by blast
  next
    case mid
    then have "simulatePrediction fd r ''prediction'' = Some (JStr (labelName Normal))
          \<and> simulatePrediction fd r ''loanRange'' = Some (JStr (mapRange Normal))"
      by (simp add: simulatePrediction_prediction simulatePrediction_loanRange)
    then show ?thesis by blast
  next
    case lo
    then have "simulatePrediction fd r ''prediction'' = Some (JStr (labelName Very_Bad))
          \<and> simulatePrediction fd r ''loanRange'' = Some (JStr (mapRange Very_Bad))"
      by (simp add: simulatePrediction_prediction simulatePrediction_loanRange)
    then show ?thesis by blast
  qed
  then show ?thesis by simp
qed

lemma parseFloat_discrete:
  "parseFloat ''1'' = Num 1" "parseFloat ''0'' = Num 0" "parseFloat ''-1'' = Num (- 1)"
  by code_simp+

lemma discrete_below_threshold:
  assumes "isDiscrete x"
  shows "\<not> js_gt (orZero (parseFloat (toStringJS x))) (Num 650)"
  using assms
  by (auto simp add: isDiscrete_def toStringJS_def parseFloat_discrete orZero_def js_gt_def)

lemma calculatedValue_Num:
  "calculatedValue (Num q) = Some (if q < 0 then ''-1'' else if q \<le> 3 then ''0'' else ''1'')"
  by (simp add: calculatedValue_def js_gt_def js_ge_def js_le_def)

lemma calculatedValue_discrete: "isDiscrete (calculatedValue (Num q))"
  by (simp add: calculatedValue_Num isDiscrete_def)

lemma validatedForm_creditLong:
  assumes "validatedForm fd"
  shows "isDiscrete (fd ''creditLong'')"
proof -
  from assms have r: "inRange (fd ''quarterFluctuation'') (- 8) 8"
    and c: "fd ''creditLong'' = calculatedValue (parseFloat (toStringJS (fd ''quarterFluctuation'')))"
    by (simp_all add: validatedForm_def)
  from r obtain v q where "fd ''quarterFluctuation'' = Some v" "parseFloat v = Num q"
    by (auto simp add: inRange_def split: option.splits jsnum.splits)
  with c have "fd ''creditLong'' = calculatedValue (Num q)"
    by (simp add: toStringJS_def)
  then show ?thesis
    by (simp add: calculatedValue_discrete)
qed

lemma score_bound:
  assumes "\<not> js_gt (orZero (parseFloat (toStringJS (fd ''creditShort'')))) (Num 650)"
    and "\<not> js_gt (orZero (parseFloat (toStringJS (fd ''creditLong'')))) (Num 650)"
    and "fd ''paymentHistory'' \<noteq> Some ''excellent''"
  shows "simulationScore fd \<le> 15"
  using assms by (simp add: simulationScore_def Let_def)

text \<open>
  Claim C5. On every form in the validated input domain the fallback's score is at
  most 15, so it returns \<open>Very_Bad\<close> and \<open>Not eligible\<close>, whatever the random draw.
\<close>

theorem validated_form_always_very_bad:
  assumes "validatedForm fd"
  shows "simulationScore fd \<le> 15
       \<and> simulatePrediction fd r ''prediction'' = Some (JStr ''Very_Bad'')
       \<and> simulatePrediction fd r ''loanRange'' = Some (JStr ''Not eligible'')"
proof -
  have s: "isDiscrete (fd ''creditShort'')" and p: "fd ''paymentHistory'' = None"
    using assms by (simp_all add: validatedForm_def)
  have l: "isDiscrete (fd ''creditLong'')"
    using assms by (rule validatedForm_creditLong)
  have "simulationScore fd \<le> 15"
    using discrete_below_threshold [OF s] discrete_below_threshold [OF l] p
    by (simp add: score_bound)
  then show ?thesis
    by (simp add: simulatePrediction_prediction simulatePrediction_loanRange)
qed

theorem validated_form_always_very_bad_witness:
  "validatedForm filledForm
   \<and> simulationScore filledForm \<le> 15
   \<and> simulatePrediction filledForm (1 / 2) ''prediction'' = Some (JStr ''Very_Bad'')
   \<and> simulatePrediction filledForm (1 / 2) ''loanRange'' = Some (JStr ''Not eligible'')"
proof -
  have v: "validatedForm filledForm"
    by code_simp
  show ?thesis
    using v validated_form_always_very_bad [OF v, of "1 / 2"] by simp
qed

lemma callPredictionAPI_failed:
  assumes "apiFailed reply"
  shows "callPredictionAPI st reply random = simulatePrediction (formData st) random"
proof (cases reply)
  case NetworkError
  then show ?thesis
    by (simp add: callPredictionAPI_def)
next
  case (Response status body)
  with assms consider "\<not> responseOk status" | "body = None" | "body = Some JNull"
    | "body = Some JUndefined"
    by auto
  then show ?thesis
    using Response by cases (simp_all add: callPredictionAPI_def)
qed

lemma callPredictionAPI_ok_eq:
  assumes "\<not> apiFailed reply"
  shows "\<exists>data. \<forall>st random. callPredictionAPI st reply random = apiResult data"
proof (cases reply)
  case NetworkError
  with assms show ?thesis
    by simp
next
  case (Response status body)
  with assms obtain data where b: "body = Some data" and ok: "responseOk status"
    and n: "data \<noteq> JNull" "data \<noteq> JUndefined"
    by (cases body) auto
  have "\<forall>st random. callPredictionAPI st reply random = apiResult data"
    using Response b ok n by (cases data) (simp_all add: callPredictionAPI_def)
  then show ?thesis
    by blast
qed

lemma callPredictionAPI_ok:
  assumes "\<not> apiFailed reply"
  shows "callPredictionAPI st reply r1 = callPredictionAPI st reply r2"
  using callPredictionAPI_ok_eq [OF assms] by auto

lemma apiResult_dom:
  "dom (apiResult data) =
     {''prediction'', ''confidence'', ''loanRange'', ''factors'',
      ''modelPredictions'', ''processingTime''}"
  by (simp add: apiResult_def insert_commute)

lemma callPredictionAPI_ok_dom:
  assumes "\<not> apiFailed reply"
  shows "dom (callPredictionAPI st reply random) =
           {''prediction'', ''confidence'', ''loanRange'', ''factors'',
            ''modelPredictions'', ''processingTime''}"
proof -
  from callPredictionAPI_ok_eq [OF assms] obtain data
    where "callPredictionAPI st reply random = apiResult data"
    by blast
  then show ?thesis
    by (simp only: apiResult_dom)
qed

text \<open>
  Claim C6, as amended. When the API call fails, \<open>callPredictionAPI\<close> returns the object
  of \<open>simulatePrediction\<close>, whose properties are exactly \<open>prediction\<close>, \<open>confidence\<close>,
  \<open>loanRange\<close> and \<open>factors\<close>: no property tags it as a fallback result. A result built
  from a response has these four properties and, besides, \<open>modelPredictions\<close> and
  \<open>processingTime\<close>.
\<close>

theorem fallback_result_has_no_tag:
  "(apiFailed reply \<longrightarrow>
      callPredictionAPI st reply random = simulatePrediction (formData st) random
      \<and> dom (callPredictionAPI st reply random) =
          {''prediction'', ''confidence'', ''loanRange'', ''factors''})
   \<and> (\<not> apiFailed reply \<longrightarrow>
      dom (callPredictionAPI st reply random) =
          {''prediction'', ''confidence'', ''loanRange'', ''factors'',
           ''modelPredictions'', ''processingTime''})"
  by (simp add: callPredictionAPI_failed simulatePrediction_dom callPredictionAPI_ok_dom)

theorem fallback_result_has_no_tag_witness:
  "apiFailed (Response 503 None)
   \<and> callPredictionAPI initialState (Response 503 None) 0 = simulatePrediction initialFormData 0
   \<and> dom (callPredictionAPI initialState (Response 503 None) 0) =
           {''prediction'', ''confidence'', ''loanRange'', ''factors''}
   \<and> \<not> apiFailed (Response 200 (Some untaggedReply))
   \<and> dom (callPredictionAPI initialState (Response 200 (Some untaggedReply)) 0) =
           {''prediction'', ''confidence'', ''loanRange'', ''factors'',
            ''modelPredictions'', ''processingTime''}"
proof -
  have f: "apiFailed (Response 503 None)"
    by (simp add: responseOk_def)
  have n: "\<not> apiFailed (Response 200 (Some untaggedReply))"
    by (simp add: responseOk_def untaggedReply_def)
  have g: "formData initialState = initialFormData"
    by (simp add: initialState_def)
  have p: "callPredictionAPI initialState (Response 503 None) 0 =
             simulatePrediction (formData initialState) 0
           \<and> dom (callPredictionAPI initialState (Response 503 None) 0) =
             {''prediction'', ''confidence'', ''loanRange'', ''factors''}"
    by (rule mp [OF conjunct1 [OF fallback_result_has_no_tag] f])
  have q: "dom (callPredictionAPI initialState (Response 200 (Some untaggedReply)) 0) =
           {''prediction'', ''confidence'', ''loanRange'', ''factors'',
            ''modelPredictions'', ''processingTime''}"
    by (rule mp [OF conjunct2 [OF fallback_result_has_no_tag] n])
  from p have p1: "callPredictionAPI initialState (Response 503 None) 0 =
             simulatePrediction initialFormData 0"
    by (simp only: g)
  from p have p2: "dom (callPredictionAPI initialState (Response 503 None) 0) =
             {''prediction'', ''confidence'', ''loanRange'', ''factors''}"
    by (rule conjunct2)
  show ?thesis
    by (intro conjI f p1 p2 n q)
qed

lemma fallback_initial:
  "simulatePrediction initialFormData 0 =
     [''prediction'' \<mapsto> JStr ''Very_Bad'',
      ''confidence'' \<mapsto> JStr ''60.0'',
      ''loanRange'' \<mapsto> JStr ''Not eligible'',
      ''factors'' \<mapsto> JObj [(''creditScore'', JStr ''Needs Improvement''),
                               (''paymentHistory'', JStr ''Needs Improvement''),
                               (''debtRatio'', JStr ''High Risk'')]]"
proof -
  have e: "parseFloat '''' = NaN"
    by (rule parseFloat_empty)
  have t: "toFixed1 (js_add (Num 60) (round64 0)) = ''60.0''"
    by code_simp
  show ?thesis
    by (simp add: simulatePrediction_def simulationScore_def initialFormData_def toStringJS_def
        e orZero_def js_gt_def t Let_def)
qed

text \<open>
  Claim C6 as stated fails: on the initial form the fallback result has the four
  properties \<open>prediction\<close>, \<open>confidence\<close>, \<open>loanRange\<close> and \<open>factors\<close> and no other, and
  each of them holds the value that the result built from a successful response holds.
\<close>

theorem fallback_indistinguishable_counterexample:
  "dom (callPredictionAPI initialState NetworkError 0) =
     {''prediction'', ''confidence'', ''loanRange'', ''factors''}
   \<and> callPredictionAPI initialState NetworkError 0 ''prediction'' =
       callPredictionAPI initialState (Response 200 (Some untaggedReply)) 0 ''prediction''
   \<and> callPredictionAPI initialState NetworkError 0 ''confidence'' =
       callPredictionAPI initialState (Response 200 (Some untaggedReply)) 0 ''confidence''
   \<and> callPredictionAPI initialState NetworkError 0 ''loanRange'' =
       callPredictionAPI initialState (Response 200 (Some untaggedReply)) 0 ''loanRange''
   \<and> callPredictionAPI initialState NetworkError 0 ''factors'' =
       callPredictionAPI initialState (Response 200 (Some untaggedReply)) 0 ''factors''"
proof -
  have a: "callPredictionAPI initialState NetworkError 0 = simulatePrediction initialFormData 0"
    by (simp add: callPredictionAPI_def initialState_def)
  have d: "dom (simulatePrediction initialFormData 0) =
     {''prediction'', ''confidence'', ''loanRange'', ''factors''}"
    by (rule simulatePrediction_dom)
  have b: "callPredictionAPI initialState (Response 200 (Some untaggedReply)) 0 ''prediction'' =
             Some (JStr ''Very_Bad'')"
    "callPredictionAPI initialState (Response 200 (Some untaggedReply)) 0 ''confidence'' =
             Some (JStr ''60.0'')"
    "callPredictionAPI initialState (Response 200 (Some untaggedReply)) 0 ''loanRange'' =
             Some (JStr ''Not eligible'')"
    "callPredictionAPI initialState (Response 200 (Some untaggedReply)) 0 ''factors'' =
             Some (JObj [(''creditScore'', JStr ''Needs Improvement''),
                         (''paymentHistory'', JStr ''Needs Improvement''),
                         (''debtRatio'', JStr ''High Risk'')])"
    by (simp_all add: callPredictionAPI_def responseOk_def untaggedReply_def apiResult_def)
  have c: "simulatePrediction initialFormData 0 ''prediction'' = Some (JStr ''Very_Bad'')"
    "simulatePrediction initialFormData 0 ''confidence'' = Some (JStr ''60.0'')"
    "simulatePrediction initialFormData 0 ''loanRange'' = Some (JStr ''Not eligible'')"
    "simulatePrediction initialFormData 0 ''factors'' =
             Some (JObj [(''creditScore'', JStr ''Needs Improvement''),
                         (''paymentHistory'', JStr ''Needs Improvement''),
                         (''debtRatio'', JStr ''High Risk'')])"
    by (simp_all add: fallback_initial)
  show ?thesis
    unfolding a b c by (simp only: d simp_thms)
qed

text \<open>
  Claim C7 as stated fails: two runs of the fallback on the same form with different
  random draws return different confidences (\<open>60.0\<close> for the draw 0, \<open>70.0\<close> for the
  draw 1/2).
\<close>

theorem fallback_confidence_counterexample:
  "callPredictionAPI initialState NetworkError 0 ''confidence'' \<noteq>
   callPredictionAPI initialState NetworkError (1 / 2) ''confidence''"
proof -
  have s: "simulationScore initialFormData = 0"
    by (simp add: simulationScore_def initialFormData_def toStringJS_def parseFloat_empty
        orZero_def js_gt_def Let_def)
  have a: "toFixed1 (js_add (Num 60) (round64 0)) = ''60.0''"
    by code_simp
  have b: "toFixed1 (js_add (Num 60) (round64 10)) = ''70.0''"
    by code_simp
  show ?thesis
    by (simp add: callPredictionAPI_def initialState_def simulatePrediction_confidence s a b)
qed

text \<open>
  Claim C7, as amended. For the same state and the same reply of the network, two runs
  return the same \<open>prediction\<close>, \<open>loanRange\<close> and \<open>factors\<close> whatever \<open>Math.random()\<close>
  draws, and a run that does not end in the fallback returns the same object
  altogether. (The fallback's \<open>confidence\<close> depends on the draw.)
\<close>

theorem fallback_label_and_range_deterministic:
  "callPredictionAPI st reply r1 ''prediction'' = callPredictionAPI st reply r2 ''prediction''
   \<and> callPredictionAPI st reply r1 ''loanRange'' = callPredictionAPI st reply r2 ''loanRange''
   \<and> callPredictionAPI st reply r1 ''factors'' = callPredictionAPI st reply r2 ''factors''
   \<and> (\<not> apiFailed reply \<longrightarrow> callPredictionAPI st reply r1 = callPredictionAPI st reply r2)"
proof (cases "apiFailed reply")
  case True
  then show ?thesis
    using simulatePrediction_factors [of "formData st" r1 r2]
    by (simp add: callPredictionAPI_failed simulatePrediction_prediction simulatePrediction_loanRange)
next
  case False
  then show ?thesis
    using callPredictionAPI_ok [OF False, of st r1 r2] by simp
qed

theorem fallback_label_and_range_deterministic_witness:
  "\<not> apiFailed (Response 200 (Some untaggedReply))
   \<and> callPredictionAPI initialState (Response 200 (Some untaggedReply)) 0 =
     callPredictionAPI initialState (Response 200 (Some untaggedReply)) (1 / 2)
   \<and> callPredictionAPI initialState NetworkError 0 ''prediction'' =
     callPredictionAPI initialState NetworkError (1 / 2) ''prediction''"
proof -
  have f: "\<not> apiFailed (Response 200 (Some untaggedReply))"
    by (simp add: responseOk_def untaggedReply_def)
  show ?thesis
    using f
      fallback_label_and_range_deterministic [of initialState "Response 200 (Some untaggedReply)" 0 "1 / 2"]
      fallback_label_and_range_deterministic [of initialState NetworkError 0 "1 / 2"]
    by simp
qed

section \<open>Properties of the page state\<close>

lemma derivedInv_iff:
  "derivedInv fd \<longleftrightarrow>
     (\<exists>v. fd ''quarterFluctuation'' = Some v \<and> fd ''creditLong'' = expectedDerived v
          \<and> fd ''resultantFluctuation'' = expectedDerived v)"
  by (simp add: derivedInv_def split: option.splits)

lemma formAfter_other:
  assumes "name \<noteq> ''quarterFluctuation''"
  shows "formAfter fd name val = fd \<or> formAfter fd name val = fd(name \<mapsto> val)"
  using assms by (simp add: formAfter_def handleInputChange_def)

lemma formAfter_other_keeps:
  assumes "name \<noteq> ''quarterFluctuation''" and "k \<noteq> name"
  shows "formAfter fd name val k = fd k"
  using formAfter_other [OF assms(1), of fd val] assms(2) by auto

lemma formAfter_quarterFluctuation:
  "formAfter fd ''quarterFluctuation'' val = fd
   \<or> formAfter fd ''quarterFluctuation'' val =
       fd(''creditLong'' := expectedDerived val, ''resultantFluctuation'' := expectedDerived val,
          ''quarterFluctuation'' \<mapsto> val)"
  by (simp add: formAfter_def handleInputChange_def expectedDerived_def Let_def)

lemma derivedInv_quarterFluctuation:
  assumes "derivedInv fd"
  shows "derivedInv (formAfter fd ''quarterFluctuation'' val)"
  using formAfter_quarterFluctuation [of fd val] assms
  by (auto simp add: derivedInv_iff)

lemma derivedInv_other:
  assumes "derivedInv fd" and "name \<noteq> ''quarterFluctuation''"
    and "name \<noteq> ''creditLong''" and "name \<noteq> ''resultantFluctuation''"
  shows "derivedInv (formAfter fd name val)"
proof -
  have "formAfter fd name val ''quarterFluctuation'' = fd ''quarterFluctuation''"
    and "formAfter fd name val ''creditLong'' = fd ''creditLong''"
    and "formAfter fd name val ''resultantFluctuation'' = fd ''resultantFluctuation''"
    using assms(2-4) by (simp_all add: formAfter_other_keeps)
  then show ?thesis
    using assms(1) by (simp add: derivedInv_iff)
qed

lemma derivedInv_change:
  assumes "derivedInv fd"
  shows "derivedInv (formAfter fd (fieldName f) val)"
  using assms
  by (cases f) (simp_all add: derivedInv_quarterFluctuation derivedInv_other)

lemma derivedInv_initial: "derivedInv initialFormData"
  by (simp add: derivedInv_def initialFormData_def expectedDerived_def)

lemma derivedInv_step:
  assumes "derivedInv (formData st)"
  shows "derivedInv (formData (step st e))"
proof (cases e)
  case (Change f val)
  then show ?thesis
    using assms by (simp add: derivedInv_change)
next
  case (ModelClick i)
  then show ?thesis
    using assms by (simp add: selectModel_def)
next
  case (Submit reply random)
  then show ?thesis
    using assms by (simp add: handleSubmit_def)
next
  case ResetClick
  then show ?thesis
    by (simp add: resetForm_def derivedInv_def expectedDerived_def)
qed

lemma derivedInv_foldl:
  assumes "derivedInv (formData st)"
  shows "derivedInv (formData (foldl step st es))"
  using assms
proof (induction es arbitrary: st)
  case Nil
  then show ?case by simp
next
  case (Cons e es)
  then show ?case
    by (simp add: derivedInv_step)
qed

lemma derivedInv_run: "derivedInv (formData (run es))"
  unfolding run_def
  by (rule derivedInv_foldl) (simp add: initialState_def derivedInv_initial)

lemma step_keeps_derived:
  assumes "\<forall>val. e \<noteq> Change QuarterFluctuation val" and "e \<noteq> ResetClick"
  shows "formData (step st e) ''creditLong'' = formData st ''creditLong''
       \<and> formData (step st e) ''resultantFluctuation'' = formData st ''resultantFluctuation''"
proof (cases e)
  case (Change f val)
  with assms(1) have "f \<noteq> QuarterFluctuation"
    by auto
  then have "fieldName f \<noteq> ''quarterFluctuation''" "fieldName f \<noteq> ''creditLong''"
    "fieldName f \<noteq> ''resultantFluctuation''"
    by (cases f; simp)+
  then show ?thesis
    using Change by (simp add: formAfter_other_keeps)
next
  case (ModelClick i)
  then show ?thesis
    by (simp add: selectModel_def)
next
  case (Submit reply random)
  then show ?thesis
    by (simp add: handleSubmit_def)
next
  case ResetClick
  then show ?thesis
    using assms(2) by simp
qed

text \<open>
  Claim C8. After every sequence of events of the page, \<open>creditLong\<close> and
  \<open>resultantFluctuation\<close> hold the value calculated from the stored \<open>quarterFluctuation\<close>;
  when \<open>quarterFluctuation\<close> is empty both are empty; and no event other than a change
  of \<open>quarterFluctuation\<close> or a reset changes either of them (their own inputs are
  read-only and raise no change event).
\<close>

theorem derived_fields_follow_quarterFluctuation:
  "derivedInv (formData (run es))
   \<and> (formData (run es) ''quarterFluctuation'' = Some '''' \<longrightarrow>
        formData (run es) ''creditLong'' = Some ''''
        \<and> formData (run es) ''resultantFluctuation'' = Some '''')
   \<and> ((\<forall>val. e \<noteq> Change QuarterFluctuation val) \<and> e \<noteq> ResetClick \<longrightarrow>
        formData (step st e) ''creditLong'' = formData st ''creditLong''
        \<and> formData (step st e) ''resultantFluctuation'' = formData st ''resultantFluctuation'')"
proof -
  have i: "derivedInv (formData (run es))"
    by (rule derivedInv_run)
  then have "formData (run es) ''quarterFluctuation'' = Some '''' \<longrightarrow>
        formData (run es) ''creditLong'' = Some ''''
        \<and> formData (run es) ''resultantFluctuation'' = Some ''''"
    by (auto simp add: derivedInv_iff expectedDerived_def)
  then show ?thesis
    using i step_keeps_derived [of e st] by blast
qed

theorem derived_fields_follow_quarterFluctuation_witness:
  "formData (run [Change QuarterFluctuation ''4'', Change Cph ''1'', Change QuarterFluctuation ''''])
     ''quarterFluctuation'' = Some ''''
   \<and> formData (run [Change QuarterFluctuation ''4'', Change Cph ''1'', Change QuarterFluctuation ''''])
     ''creditLong'' = Some ''''
   \<and> formData (run [Change QuarterFluctuation ''4'', Change Cph ''1'', Change QuarterFluctuation ''''])
     ''resultantFluctuation'' = Some ''''
   \<and> formData (run [Change QuarterFluctuation ''4'']) ''creditLong'' = Some ''1''
   \<and> formData (step (run [Change QuarterFluctuation ''4'']) (Change Aph ''0.5'')) ''creditLong'' = Some ''1''"
proof -
  have q: "formData (run [Change QuarterFluctuation ''4'', Change Cph ''1'', Change QuarterFluctuation ''''])
     ''quarterFluctuation'' = Some ''''"
    by code_simp
  have c: "formData (run [Change QuarterFluctuation ''4'']) ''creditLong'' = Some ''1''"
    by code_simp
  have e: "(\<forall>val. Change Aph ''0.5'' \<noteq> Change QuarterFluctuation val) \<and> Change Aph ''0.5'' \<noteq> ResetClick"
    by simp
  show ?thesis
    using q c e
      derived_fields_follow_quarterFluctuation
        [of "[Change QuarterFluctuation ''4'', Change Cph ''1'', Change QuarterFluctuation '''']"
            "Change Aph ''0.5''" "run [Change QuarterFluctuation ''4'']"]
    by simp
qed

text \<open>
  Claim C10. After every sequence of input changes, model clicks, submits and resets
  from the initial state, \<open>creditLong\<close> and \<open>resultantFluctuation\<close> are equal.
\<close>

theorem derived_fields_equal:
  "formData (run es) ''creditLong'' = formData (run es) ''resultantFluctuation''"
  using derivedInv_run [of es]
  by (auto simp add: derivedInv_iff)

lemma modelCards_services:
  assumes "(k, s) \<in> set modelCards"
  shows "(s = ''loan'' \<or> s = ''classification'') \<and> k \<noteq> '''' \<and> map_of modelCards k = Some s
       \<and> k \<in> {''xgboost'', ''random_forest'', ''logistic'', ''knn''}"
  using assms by (auto simp add: modelCards_def)

lemma modelInv_iff:
  "modelInv st \<longleftrightarrow>
     selectedModels st = selectedModels initialState
     \<and> (selectedService st = ''loan'' \<or> selectedService st = ''classification'')
     \<and> (\<forall>k. specificModel st = Some k \<longrightarrow> (k, selectedService st) \<in> set modelCards)"
  by (simp add: modelInv_def split: option.splits)

lemma modelInv_initial: "modelInv initialState"
  by (simp add: modelInv_iff initialState_def)

lemma modelInv_step:
  assumes "modelInv st"
  shows "modelInv (step st e)"
proof (cases e)
  case (Change f val)
  then show ?thesis
    using assms by (simp add: modelInv_iff)
next
  case (ModelClick i)
  show ?thesis
  proof (cases "i < length modelCards")
    case True
    then have "modelCards ! i \<in> set modelCards"
      by (rule nth_mem)
    then have m: "(fst (modelCards ! i), snd (modelCards ! i)) \<in> set modelCards"
      by simp
    from modelCards_services [OF m] m show ?thesis
      using assms ModelClick True by (simp add: modelInv_iff selectModel_def)
  next
    case False
    then show ?thesis
      using assms ModelClick by simp
  qed
next
  case (Submit reply random)
  then show ?thesis
    using assms by (simp add: modelInv_iff handleSubmit_def)
next
  case ResetClick
  then show ?thesis
    using assms by (simp add: modelInv_iff resetForm_def)
qed

lemma modelInv_foldl:
  assumes "modelInv st"
  shows "modelInv (foldl step st es)"
  using assms
proof (induction es arbitrary: st)
  case Nil
  then show ?case by simp
next
  case (Cons e es)
  then show ?case
    by (simp add: modelInv_step)
qed

lemma modelInv_run: "modelInv (run es)"
  unfolding run_def by (rule modelInv_foldl) (rule modelInv_initial)

lemma modelInv_requestBody:
  assumes "modelInv st"
  shows "consistentRequest (requestBody st)"
proof (cases "specificModel st")
  case None
  from assms have "selectedModels st = selectedModels initialState"
    and "selectedService st = ''loan'' \<or> selectedService st = ''classification''"
    by (simp_all add: modelInv_iff)
  then show ?thesis
    using None
    by (auto simp add: consistentRequest_def requestBody_def initialState_def modelCards_def)
next
  case (Some k)
  with assms have "(k, selectedService st) \<in> set modelCards"
    by (simp add: modelInv_iff)
  from modelCards_services [OF this] show ?thesis
    using Some by (simp add: consistentRequest_def requestBody_def)
qed

text \<open>
  Claim C9. In every reachable state the request body lists only models among
  \<open>xgboost\<close>, \<open>random_forest\<close>, \<open>logistic\<close> and \<open>knn\<close>, each belonging to the request's
  \<open>serviceType\<close>; so does every request that a submit sends. The table of model buttons
  puts \<open>xgboost\<close> and \<open>random_forest\<close> with \<open>loan\<close>, \<open>logistic\<close> and \<open>knn\<close> with
  \<open>classification\<close>.
\<close>

theorem request_models_match_service:
  "consistentRequest (requestBody (run es))
   \<and> (sentRequest (run es) = Some req \<longrightarrow> consistentRequest req)
   \<and> map_of modelCards ''xgboost'' = Some ''loan''
   \<and> map_of modelCards ''random_forest'' = Some ''loan''
   \<and> map_of modelCards ''logistic'' = Some ''classification''
   \<and> map_of modelCards ''knn'' = Some ''classification''"
proof -
  have c: "consistentRequest (requestBody (run es))"
    using modelInv_run by (rule modelInv_requestBody)
  have "sentRequest (run es) = Some req \<longrightarrow> req = requestBody (run es)"
    by (simp add: sentRequest_def)
  with c show ?thesis
    by (auto simp add: modelCards_def)
qed

theorem request_models_match_service_witness:
  "sentRequest (run [ModelClick 3, Change Cph ''1'']) =
     Some \<lparr>body_formData = initialFormData(''cph'' \<mapsto> ''1''),
           body_serviceType = ''classification'',
           body_selectedModels = Some [''knn'']\<rparr>
   \<and> consistentRequest \<lparr>body_formData = initialFormData(''cph'' \<mapsto> ''1''),
           body_serviceType = ''classification'',
           body_selectedModels = Some [''knn'']\<rparr>"
proof -
  have s: "sentRequest (run [ModelClick 3, Change Cph ''1'']) =
     Some \<lparr>body_formData = initialFormData(''cph'' \<mapsto> ''1''),
           body_serviceType = ''classification'',
           body_selectedModels = Some [''knn'']\<rparr>"
    by (simp add: sentRequest_def run_def requestBody_def initialState_def selectModel_def
        modelCards_def truthy_def formAfter_def handleInputChange_def)
  show ?thesis
    using s request_models_match_service [of "[ModelClick 3, Change Cph ''1'']"
        "\<lparr>body_formData = initialFormData(''cph'' \<mapsto> ''1''),
           body_serviceType = ''classification'',
           body_selectedModels = Some [''knn'']\<rparr>"]
    by simp
qed

end
